theory Spec2Isabelle
  imports Complex_Main
begin

section \<open>The shared timer record\<close>

text \<open>
  The interface \<^verbatim>\<open>StageTimer\<close> of the admin page and of the display page. The status is
  the string union \<^verbatim>\<open>"running" | "paused" | "stopped"\<close>. The column \<^verbatim>\<open>start_time\<close> is an
  ISO-8601 string or \<^verbatim>\<open>null\<close>; the pages only ever write it with
  \<^verbatim>\<open>new Date().toISOString()\<close> and read it with \<^verbatim>\<open>new Date(start_time).getTime()\<close>, so the
  model keeps the instant it denotes, in milliseconds since the epoch. A non-null timestamp
  string is truthy in JavaScript whatever instant it denotes, so \<open>Some 0\<close> passes the test
  \<^verbatim>\<open>timer.start_time\<close>. The numbers of the pages are integers far below \<open>2^53\<close>, where the
  double arithmetic of JavaScript is exact; they are modelled as \<open>int\<close>. The display page's
  advisory field \<^verbatim>\<open>updated_at\<close> is never read or written by the pages and is left out.
\<close>

datatype TimerStatus = running | paused | stopped

record StageTimer =
  timer_id :: int
  duration :: int
  start_time :: "int option"
  status :: TimerStatus

subsection \<open>The functions of \<^verbatim>\<open>Math\<close> the pages call\<close>

text \<open>
  \<^verbatim>\<open>Math.floor\<close> rounds towards minus infinity; \<^verbatim>\<open>Math.round\<close> rounds to the nearest integer
  and a tie towards plus infinity. \<^verbatim>\<open>Math.max(0, x)\<close> is \<open>max 0 x\<close>.
\<close>

definition Math_floor :: "rat \<Rightarrow> int" where
  "Math_floor x = \<lfloor>x\<rfloor>"

definition Math_round :: "rat \<Rightarrow> int" where
  "Math_round x = \<lfloor>x + 1 / 2\<rfloor>"

subsection \<open>\<^verbatim>\<open>parseInt\<close> with no radix\<close>

text \<open>
  \<^verbatim>\<open>parseInt(s)\<close>: leading white space is dropped, then an optional sign, then an optional
  \<^verbatim>\<open>0x\<close>/\<^verbatim>\<open>0X\<close> prefix, which selects radix 16 instead of 10; the longest run of digits of
  the radix is the value, anything after it is ignored; no digit at all gives \<^verbatim>\<open>NaN\<close>,
  here \<open>None\<close>. So \<^verbatim>\<open>"1.5"\<close> parses to 1, \<^verbatim>\<open>"12abc"\<close> to 12 and \<^verbatim>\<open>"-5"\<close> to \<open>- 5\<close>. A
  \<open>char\<close> is a byte, so the white space of the model is the ASCII one: tab, line feed,
  vertical tab, form feed, carriage return and space.
\<close>

definition is_white :: "char \<Rightarrow> bool" where
  "is_white c \<longleftrightarrow> c \<in> set [CHR 0x09, CHR 0x0A, CHR 0x0B, CHR 0x0C, CHR 0x0D, CHR 0x20]"

definition digit_of :: "nat \<Rightarrow> char \<Rightarrow> nat option" where
  "digit_of R c =
     (let n = (of_char c :: nat);
          v = (if 48 \<le> n \<and> n \<le> 57 then Some (n - 48)
               else if 97 \<le> n \<and> n \<le> 122 then Some (n - 87)
               else if 65 \<le> n \<and> n \<le> 90 then Some (n - 55)
               else None)
      in case v of None \<Rightarrow> None | Some d \<Rightarrow> if d < R then Some d else None)"

definition is_digit :: "nat \<Rightarrow> char \<Rightarrow> bool" where
  "is_digit R c \<longleftrightarrow> digit_of R c \<noteq> None"

definition digits_value :: "nat \<Rightarrow> string \<Rightarrow> nat" where
  "digits_value R Z = foldl (\<lambda>acc c. acc * R + (case digit_of R c of None \<Rightarrow> 0 | Some d \<Rightarrow> d)) 0 Z"

definition strip_sign :: "string \<Rightarrow> int \<times> string" where
  "strip_sign S =
     (case S of
        [] \<Rightarrow> (1, S)
      | c # cs \<Rightarrow> if c = CHR ''-'' then (- 1, cs) else if c = CHR ''+'' then (1, cs) else (1, S))"

definition strip_prefix :: "string \<Rightarrow> nat \<times> string" where
  "strip_prefix S =
     (if take 2 S = ''0x'' \<or> take 2 S = ''0X'' then (16, drop 2 S) else (10, S))"

definition parseInt :: "string \<Rightarrow> int option" where
  "parseInt str =
     (let (sign, S1) = strip_sign (dropWhile is_white str);
          (R, S2) = strip_prefix S1;
          Z = takeWhile (is_digit R) S2
      in if Z = [] then None else Some (sign * int (digits_value R Z)))"

section \<open>The shared store\<close>

text \<open>
  Modelled from the spec: the table \<^verbatim>\<open>stage_timer\<close> behind the client of \<^verbatim>\<open>@/lib/supabase\<close>,
  which is not among the sources. The pages use three operations of it: fetch by id
  (\<^verbatim>\<open>select("*").eq("id", i).single()\<close>), insert if absent
  (\<^verbatim>\<open>insert(row).select().single()\<close>) and update by id with partial fields
  (\<^verbatim>\<open>update(fields).eq("id", i)\<close>). A response carries either the row or an error with a
  code and a message; \<^verbatim>\<open>PGRST116\<close> is the code of a \<^verbatim>\<open>single()\<close> that found no row. An
  update applies all its fields together. The store keeps the list of the rows it was asked
  to insert and did insert, and \<open>online\<close> tells whether it can be reached.
\<close>

datatype 'a response = Data 'a | Error string string

record Store =
  rows :: "int \<rightharpoonup> StageTimer"
  inserted :: "StageTimer list"
  online :: bool

record TimerUpdate =
  set_status :: "TimerStatus option"
  set_start_time :: "int option option"
  set_duration :: "int option"

definition apply_update :: "TimerUpdate \<Rightarrow> StageTimer \<Rightarrow> StageTimer" where
  "apply_update u r =
     r\<lparr>duration := (case set_duration u of None \<Rightarrow> duration r | Some v \<Rightarrow> v),
       start_time := (case set_start_time u of None \<Rightarrow> start_time r | Some v \<Rightarrow> v),
       status := (case set_status u of None \<Rightarrow> status r | Some v \<Rightarrow> v)\<rparr>"

definition select_single :: "int \<Rightarrow> Store \<Rightarrow> StageTimer response" where
  "select_single i s =
     (if \<not> online s then Error ''FETCH'' ''store unreachable''
      else case rows s i of
             None \<Rightarrow> Error ''PGRST116'' ''no rows''
           | Some r \<Rightarrow> Data r)"

definition insert_single :: "StageTimer \<Rightarrow> Store \<Rightarrow> StageTimer response \<times> Store" where
  "insert_single r s =
     (if \<not> online s then (Error ''FETCH'' ''store unreachable'', s)
      else case rows s (timer_id r) of
             Some old \<Rightarrow> (Error ''23505'' ''duplicate key'', s)
           | None \<Rightarrow> (Data r, s\<lparr>rows := (rows s)(timer_id r \<mapsto> r), inserted := inserted s @ [r]\<rparr>))"

definition update_eq_id :: "TimerUpdate \<Rightarrow> int \<Rightarrow> Store \<Rightarrow> Store" where
  "update_eq_id u i s =
     (if \<not> online s then s
      else case rows s i of
             None \<Rightarrow> s
           | Some r \<Rightarrow> s\<lparr>rows := (rows s)(i \<mapsto> apply_update u r)\<rparr>)"

section \<open>The admin page: the controller\<close>

text \<open>
  The state of the component \<^verbatim>\<open>AdminPage\<close>: the cached record, the text of the minutes
  field, the clock reading refreshed every 200 ms, and the loading and error flags. The
  two versions of the page among the sources have the same \<^verbatim>\<open>startTimer\<close>, \<^verbatim>\<open>pauseTimer\<close>,
  \<^verbatim>\<open>resetTimer\<close>, \<^verbatim>\<open>updateDuration\<close> and \<^verbatim>\<open>getRemainingTime\<close>, text for text; the version
  with the error state also has the \<^verbatim>\<open>fetchTimer\<close> below, the other one a \<^verbatim>\<open>fetchTimer\<close>
  that only caches the row it finds. Every action reads the cached record and writes the
  row of the store with the cached id; the argument \<open>now\<close> is the reading of \<^verbatim>\<open>Date.now()\<close>
  (or \<^verbatim>\<open>new Date()\<close>) the action takes. In \<^verbatim>\<open>fetchTimer\<close> the \<^verbatim>\<open>finally\<close> clause clears the
  loading flag on every path; the store of the model answers every call with a response
  and raises nothing, so the \<^verbatim>\<open>catch\<close> clause has no path here. A response of
  \<^verbatim>\<open>single()\<close> without an error carries a row.
\<close>

record AdminState =
  timer :: "StageTimer option"
  minutesInput :: string
  currentTime :: int
  loading :: bool
  error :: "string option"

definition default_timer :: StageTimer where
  "default_timer = \<lparr>timer_id = 1, duration = 300, start_time = None, status = stopped\<rparr>"

definition fetchTimer :: "AdminState \<Rightarrow> Store \<Rightarrow> AdminState \<times> Store" where
  "fetchTimer a s =
     (case select_single 1 s of
        Error code msg \<Rightarrow>
          if code = ''PGRST116'' then
            (case insert_single default_timer s of
               (Error icode imsg, s') \<Rightarrow>
                 (a\<lparr>error := Some (''Failed to initialize timer: '' @ imsg), loading := False\<rparr>, s')
             | (Data newData, s') \<Rightarrow> (a\<lparr>timer := Some newData, loading := False\<rparr>, s'))
          else (a\<lparr>error := Some (''Failed to load timer: '' @ msg), loading := False\<rparr>, s)
      | Data d \<Rightarrow> (a\<lparr>timer := Some d, loading := False\<rparr>, s))"

definition on_change :: "StageTimer \<Rightarrow> AdminState \<Rightarrow> AdminState" where
  "on_change new a = a\<lparr>timer := Some new\<rparr>"

definition startTimer :: "int \<Rightarrow> AdminState \<Rightarrow> Store \<Rightarrow> Store" where
  "startTimer now a s =
     (case timer a of
        None \<Rightarrow> s
      | Some t \<Rightarrow>
          if duration t \<le> 0 then s
          else update_eq_id
                 \<lparr>set_status = Some running, set_start_time = Some (Some now), set_duration = None\<rparr>
                 (timer_id t) s)"

definition pauseTimer :: "int \<Rightarrow> AdminState \<Rightarrow> Store \<Rightarrow> Store" where
  "pauseTimer now a s =
     (case timer a of
        None \<Rightarrow> s
      | Some t \<Rightarrow>
          (case start_time t of
             None \<Rightarrow> s
           | Some startMs \<Rightarrow>
               let elapsed = Math_floor (of_int (now - startMs) / 1000);
                   remaining = max 0 (duration t - elapsed)
               in update_eq_id
                    \<lparr>set_status = Some paused, set_start_time = Some None,
                     set_duration = Some remaining\<rparr>
                    (timer_id t) s))"

definition resetTimer :: "AdminState \<Rightarrow> Store \<Rightarrow> Store" where
  "resetTimer a s =
     (case timer a of
        None \<Rightarrow> s
      | Some t \<Rightarrow>
          update_eq_id
            \<lparr>set_status = Some stopped, set_start_time = Some None, set_duration = None\<rparr>
            (timer_id t) s)"

definition updateDuration :: "AdminState \<Rightarrow> Store \<Rightarrow> AdminState \<times> Store" where
  "updateDuration a s =
     (case timer a of
        None \<Rightarrow> (a, s)
      | Some t \<Rightarrow>
          (case parseInt (minutesInput a) of
             None \<Rightarrow> (a, s)
           | Some mins \<Rightarrow>
               (a\<lparr>minutesInput := ''''\<rparr>,
                update_eq_id
                  \<lparr>set_status = None, set_start_time = None, set_duration = Some (mins * 60)\<rparr>
                  (timer_id t) s)))"

definition getRemainingTime :: "AdminState \<Rightarrow> int" where
  "getRemainingTime a =
     (case timer a of
        None \<Rightarrow> 0
      | Some t \<Rightarrow>
          if status t \<noteq> running then duration t
          else (case start_time t of
                  None \<Rightarrow> duration t
                | Some startMs \<Rightarrow>
                    let elapsed = Math_floor (of_int (currentTime a - startMs) / 1000);
                        remaining = max 0 (duration t - elapsed)
                    in remaining))"

section \<open>The display page: a passive viewer\<close>

text \<open>
  The state of \<^verbatim>\<open>DisplayPage\<close>: the cached record, the estimated clock offset and the
  remaining time shown. \<^verbatim>\<open>loadTimer\<close> ignores the error of the response and stores the
  row only when there is one. \<^verbatim>\<open>computeOffset\<close> takes the two local readings \<open>t0\<close>, \<open>t1\<close>
  around the request to \<^verbatim>\<open>/api/time\<close> and the \<^verbatim>\<open>now_ms\<close> of its answer.
  \<^verbatim>\<open>computeRemaining\<close> takes the reading of \<^verbatim>\<open>Date.now()\<close>.
\<close>

record DisplayState =
  display_timer :: "StageTimer option"
  offsetMs :: int
  remaining :: int

definition loadTimer :: "DisplayState \<Rightarrow> Store \<Rightarrow> DisplayState \<times> Store" where
  "loadTimer d s =
     (case select_single 1 s of
        Data row \<Rightarrow> (d\<lparr>display_timer := Some row\<rparr>, s)
      | Error code msg \<Rightarrow> (d, s))"

definition computeOffset :: "int \<Rightarrow> int \<Rightarrow> int \<Rightarrow> DisplayState \<Rightarrow> DisplayState" where
  "computeOffset t0 t1 serverMs d =
     (let midpoint = Math_round (of_int (t0 + t1) / 2)
      in d\<lparr>offsetMs := serverMs - midpoint\<rparr>)"

definition computeRemaining :: "int \<Rightarrow> DisplayState \<Rightarrow> int" where
  "computeRemaining now d =
     (case display_timer d of
        None \<Rightarrow> 0
      | Some t \<Rightarrow>
          if status t = running then
            (case start_time t of
               Some start \<Rightarrow>
                 let serverNow = now + offsetMs d;
                     elapsed = Math_floor (of_int (serverNow - start) / 1000)
                 in max 0 (duration t - elapsed)
             | None \<Rightarrow> max 0 (duration t))
          else max 0 (duration t))"

definition display_on_change :: "StageTimer \<Rightarrow> DisplayState \<Rightarrow> DisplayState" where
  "display_on_change new d = d\<lparr>display_timer := Some new\<rparr>"

definition tick :: "int \<Rightarrow> DisplayState \<Rightarrow> DisplayState" where
  "tick now d = d\<lparr>remaining := computeRemaining now d\<rparr>"

section \<open>Change notification and repeated fetches\<close>


fun refetch :: "nat \<Rightarrow> AdminState \<Rightarrow> Store \<Rightarrow> AdminState \<times> Store" where
  "refetch 0 a s = (a, s)"
| "refetch (Suc n) a s = (case fetchTimer a s of (a', s') \<Rightarrow> refetch n a' s')"

section \<open>The clock of a page\<close>

text \<open>
  Every page reads its own clock. The offset of a clock is the number with
  \<open>referenceNow = localNow + offset\<close>; so at the reference instant \<open>referenceNow\<close> the
  \<^verbatim>\<open>Date.now()\<close> (and the \<^verbatim>\<open>new Date()\<close>) of a page whose clock has the offset \<open>offset\<close>
  reads \<open>referenceNow - offset\<close>. The display page estimates its offset and adds it to
  its readings; the admin page has no offset and uses its readings as they are.
\<close>

definition Date_now :: "int \<Rightarrow> int \<Rightarrow> int" where
  "Date_now offset referenceNow = referenceNow - offset"

section \<open>The invariant of the record and sample states\<close>

text \<open>
  The two invariants the data model asks of a record: the duration is not negative, and
  the start time is set exactly when the status is \<open>running\<close>.
\<close>

definition timer_inv :: "StageTimer \<Rightarrow> bool" where
  "timer_inv r \<longleftrightarrow> 0 \<le> duration r \<and> ((start_time r \<noteq> None) = (status r = running))"

text \<open>
  An admin page whose cache holds \<open>r\<close>, with the text \<open>txt\<close> in the minutes field and the clock
  reading \<open>now\<close>; a reachable store whose only row is \<open>r\<close>; a display page whose cache holds
  \<open>r\<close>, with the offset \<open>off\<close>; and a record running since \<open>1700000000000\<close> ms.
\<close>

definition admin_with :: "StageTimer \<Rightarrow> string \<Rightarrow> int \<Rightarrow> AdminState" where
  "admin_with r txt now =
     \<lparr>timer = Some r, minutesInput = txt, currentTime = now, loading = False, error = None\<rparr>"

definition store_with :: "StageTimer \<Rightarrow> Store" where
  "store_with r = \<lparr>rows = Map.empty(timer_id r \<mapsto> r), inserted = [], online = True\<rparr>"

definition display_with :: "StageTimer \<Rightarrow> int \<Rightarrow> DisplayState" where
  "display_with r off = \<lparr>display_timer = Some r, offsetMs = off, remaining = 0\<rparr>"

definition sample_running :: StageTimer where
  "sample_running =
     \<lparr>timer_id = 1, duration = 100, start_time = Some 1700000000000, status = running\<rparr>"

section \<open>Arithmetic of the clock\<close>



lemma Math_round_half: "Math_round (of_int x / 2) = (x + 1) div 2"
proof -
  have "(of_int x :: rat) / 2 + 1 / 2 = of_int (x + 1) / of_int 2"
    by (simp add: add_divide_distrib)
  then have "\<lfloor>(of_int x :: rat) / 2 + 1 / 2\<rfloor> = (x + 1) div 2"
    by (simp only: floor_divide_of_int_eq)
  then show ?thesis by (simp add: Math_round_def)
qed



section \<open>The operations of the store\<close>

lemma update_eq_id_row:
  "online s \<Longrightarrow> rows s i = Some r \<Longrightarrow>
   update_eq_id u i s = s\<lparr>rows := (rows s)(i \<mapsto> apply_update u r)\<rparr>"
  by (simp add: update_eq_id_def)

lemma select_single_found: "online s \<Longrightarrow> rows s i = Some r \<Longrightarrow> select_single i s = Data r"
  by (simp add: select_single_def)

lemma select_single_missing:
  "online s \<Longrightarrow> rows s i = None \<Longrightarrow> select_single i s = Error ''PGRST116'' ''no rows''"
  by (simp add: select_single_def)

section \<open>The countdown projector\<close>

text \<open>
  C1, as stated, fails for the admin page's \<^verbatim>\<open>getRemainingTime\<close>. The page has no clock
  offset: with the record running since instant 0 for 100 seconds, the local reading 10000
  and an offset of 5000 ms the stated value is \<open>max 0 (100 - 15) = 85\<close>, and the page shows
  \<open>90\<close>. And when the status is not \<open>running\<close> the page returns the duration as it is: a
  stopped record with duration \<open>- 300\<close> gives \<open>- 300\<close>, which is negative and is not
  \<open>max 0 (- 300)\<close>.
\<close>

theorem getRemainingTime_counterexample:
  "getRemainingTime
      (admin_with \<lparr>timer_id = 1, duration = 100, start_time = Some 0, status = running\<rparr> [] 10000)
     \<noteq> max 0 (100 - \<lfloor>of_int ((10000 + 5000) - 0) / (1000::rat)\<rfloor>)
   \<and> getRemainingTime
      (admin_with \<lparr>timer_id = 1, duration = - 300, start_time = None, status = stopped\<rparr> [] 10000) < 0
   \<and> getRemainingTime
      (admin_with \<lparr>timer_id = 1, duration = - 300, start_time = None, status = stopped\<rparr> [] 10000)
     \<noteq> max 0 (- 300)"
  by (simp add: getRemainingTime_def admin_with_def Math_floor_def)

text \<open>
  C1, amended. For every record \<open>t\<close>, offset and clock reading, the display page's
  \<^verbatim>\<open>computeRemaining\<close> is a non-negative integer; it is \<open>max 0 (duration t)\<close> when the status
  is not \<open>running\<close>, and \<open>max 0 (duration t - floor (((now + offsetMs) - T) / 1000))\<close> when the
  status is \<open>running\<close> and the start time is \<open>T\<close>. The admin page's \<^verbatim>\<open>getRemainingTime\<close> uses
  no offset: when the status is \<open>running\<close> and the start time is \<open>T\<close> it is the non-negative
  \<open>max 0 (duration t - floor ((currentTime - T) / 1000))\<close>; for a record whose duration is
  not negative it is non-negative, and equal to \<open>max 0 (duration t)\<close> when the status is not
  \<open>running\<close>.
\<close>

theorem countdown_projection:
  "(display_timer d = Some t \<longrightarrow>
      0 \<le> computeRemaining now d
      \<and> (status t \<noteq> running \<longrightarrow> computeRemaining now d = max 0 (duration t))
      \<and> (status t = running \<and> start_time t = Some T \<longrightarrow>
           computeRemaining now d =
             max 0 (duration t - \<lfloor>of_int ((now + offsetMs d) - T) / (1000::rat)\<rfloor>)))
   \<and> (timer a = Some t \<longrightarrow>
      (status t = running \<and> start_time t = Some T \<longrightarrow>
         0 \<le> getRemainingTime a
         \<and> getRemainingTime a =
             max 0 (duration t - \<lfloor>of_int (currentTime a - T) / (1000::rat)\<rfloor>))
      \<and> (0 \<le> duration t \<longrightarrow>
           0 \<le> getRemainingTime a
           \<and> (status t \<noteq> running \<longrightarrow> getRemainingTime a = max 0 (duration t))))"
proof -
  have disp: "0 \<le> computeRemaining now d"
    by (simp add: computeRemaining_def split: option.splits)
  have disp_idle: "computeRemaining now d = max 0 (duration t)"
    if "display_timer d = Some t" and "status t \<noteq> running"
    using that by (simp add: computeRemaining_def)
  have disp_run: "computeRemaining now d =
      max 0 (duration t - \<lfloor>of_int ((now + offsetMs d) - T) / (1000::rat)\<rfloor>)"
    if "display_timer d = Some t" and "status t = running" and "start_time t = Some T"
    using that by (simp add: computeRemaining_def Math_floor_def)
  have adm_run: "getRemainingTime a = max 0 (duration t - \<lfloor>of_int (currentTime a - T) / (1000::rat)\<rfloor>)"
    if "timer a = Some t" and "status t = running" and "start_time t = Some T"
    using that by (simp add: getRemainingTime_def Math_floor_def)
  have adm_idle: "getRemainingTime a = duration t"
    if "timer a = Some t" and "status t \<noteq> running"
    using that by (simp add: getRemainingTime_def)
  have adm_pos: "0 \<le> getRemainingTime a"
    if "timer a = Some t" and "0 \<le> duration t"
    using that by (simp add: getRemainingTime_def split: option.splits)
  show ?thesis
    using disp disp_idle disp_run adm_run adm_idle adm_pos by (simp add: max_def)
qed

text \<open>
  The running sample, 65 seconds in, on a display whose clock is one second behind and on
  the admin page; and the stopped default record on both.
\<close>

theorem countdown_projection_witness:
  "display_timer (display_with sample_running 1000) = Some sample_running
   \<and> timer (admin_with sample_running [] 1700000065999) = Some sample_running
   \<and> status sample_running = running \<and> start_time sample_running = Some 1700000000000
   \<and> computeRemaining 1700000064000 (display_with sample_running 1000) = 35
   \<and> getRemainingTime (admin_with sample_running [] 1700000065999) = 35
   \<and> display_timer (display_with default_timer 1000) = Some default_timer
   \<and> timer (admin_with default_timer [] 0) = Some default_timer
   \<and> status default_timer \<noteq> running \<and> 0 \<le> duration default_timer
   \<and> computeRemaining 0 (display_with default_timer 1000) = 300
   \<and> getRemainingTime (admin_with default_timer [] 0) = 300"
proof -
  have h1: "display_timer (display_with sample_running 1000) = Some sample_running"
    "display_timer (display_with default_timer 1000) = Some default_timer"
    by (simp_all add: display_with_def)
  have h2: "timer (admin_with sample_running [] 1700000065999) = Some sample_running"
    "timer (admin_with default_timer [] 0) = Some default_timer"
    by (simp_all add: admin_with_def)
  have h3: "status sample_running = running" "start_time sample_running = Some 1700000000000"
    "duration sample_running = 100"
    by (simp_all add: sample_running_def)
  have h4: "status default_timer \<noteq> running" "0 \<le> duration default_timer" "duration default_timer = 300"
    by (simp_all add: default_timer_def)
  have h5: "offsetMs (display_with sample_running 1000) = 1000"
    "currentTime (admin_with sample_running [] 1700000065999) = 1700000065999"
    by (simp_all add: display_with_def admin_with_def)
  have fl: "\<lfloor>of_int ((1700000064000 + 1000) - 1700000000000) / (1000::rat)\<rfloor> = 65"
    "\<lfloor>of_int (1700000065999 - 1700000000000) / (1000::rat)\<rfloor> = 65"
    using floor_divide_of_int_eq [where ?'a = rat, of 65000 1000]
      floor_divide_of_int_eq [where ?'a = rat, of 65999 1000] by simp_all
  from countdown_projection [of "display_with sample_running 1000" sample_running 1700000064000
      1700000000000 "admin_with sample_running [] 1700000065999"]
    countdown_projection [of "display_with default_timer 1000" default_timer 0
      0 "admin_with default_timer [] 0"]
  show ?thesis
    using h1 h2 h3 h4 h5 fl by simp
qed

section \<open>The controller and the invariant\<close>

text \<open>
  With the cache holding the stored row of a reachable store, \<^verbatim>\<open>startTimer\<close>,
  \<^verbatim>\<open>pauseTimer\<close> and \<^verbatim>\<open>resetTimer\<close> keep the invariant of the record, and so does
  \<^verbatim>\<open>updateDuration\<close> when the minutes field does not parse or parses to a number that is
  not negative.
\<close>

lemma startTimer_keeps_inv:
  assumes "online s" and "timer a = Some r" and "rows s (timer_id r) = Some r" and "timer_inv r"
  shows "\<exists>r'. rows (startTimer now a s) (timer_id r) = Some r' \<and> timer_inv r'"
  using assms
  by (auto simp add: startTimer_def update_eq_id_row apply_update_def timer_inv_def)

lemma pauseTimer_keeps_inv:
  assumes "online s" and "timer a = Some r" and "rows s (timer_id r) = Some r" and "timer_inv r"
  shows "\<exists>r'. rows (pauseTimer now a s) (timer_id r) = Some r' \<and> timer_inv r'"
  using assms
  by (auto simp add: pauseTimer_def update_eq_id_row apply_update_def timer_inv_def
      split: option.splits)

lemma resetTimer_keeps_inv:
  assumes "online s" and "timer a = Some r" and "rows s (timer_id r) = Some r" and "timer_inv r"
  shows "\<exists>r'. rows (resetTimer a s) (timer_id r) = Some r' \<and> timer_inv r'"
  using assms
  by (auto simp add: resetTimer_def update_eq_id_row apply_update_def timer_inv_def)

lemma updateDuration_keeps_inv:
  assumes "online s" and "timer a = Some r" and "rows s (timer_id r) = Some r" and "timer_inv r"
    and "parseInt (minutesInput a) = None \<or> (\<exists>m. parseInt (minutesInput a) = Some m \<and> 0 \<le> m)"
  shows "\<exists>r'. rows (snd (updateDuration a s)) (timer_id r) = Some r' \<and> timer_inv r'"
  using assms
  by (auto simp add: updateDuration_def update_eq_id_row apply_update_def timer_inv_def)

text \<open>
  C2: every controller action keeps the duration non-negative and the start time set
  exactly when the status is \<open>running\<close>, for any text of the minutes field. The page does
  not: \<^verbatim>\<open>updateDuration\<close> only tests \<^verbatim>\<open>isNaN\<close>, and \<^verbatim>\<open>parseInt("-5")\<close> is \<open>- 5\<close>. On the
  default record, which satisfies the invariant, the text \<^verbatim>\<open>-5\<close> stores the duration
  \<open>- 300\<close>.
\<close>

theorem updateDuration_breaks_invariant:
  "timer_inv default_timer
   \<and> rows (snd (updateDuration (admin_with default_timer ''-5'' 0) (store_with default_timer))) 1
       = Some (default_timer\<lparr>duration := - 300\<rparr>)
   \<and> \<not> timer_inv (default_timer\<lparr>duration := - 300\<rparr>)"
  by code_simp

section \<open>Setting the duration\<close>

text \<open>
  A text that \<^verbatim>\<open>parseInt\<close> turns into \<^verbatim>\<open>NaN\<close> is rejected with no change of the page or
  of the store. A text that parses to \<open>mins\<close> empties the minutes field and sets the
  duration of the row to \<open>mins * 60\<close>, and nothing else.
\<close>

lemma updateDuration_rejects:
  "parseInt (minutesInput a) = None \<Longrightarrow> updateDuration a s = (a, s)"
  by (simp add: updateDuration_def split: option.splits)

lemma updateDuration_accepts:
  assumes "online s" and "timer a = Some t" and "rows s (timer_id t) = Some r"
    and "parseInt (minutesInput a) = Some mins"
  shows "updateDuration a s =
    (a\<lparr>minutesInput := []\<rparr>, s\<lparr>rows := (rows s)(timer_id t \<mapsto> r\<lparr>duration := mins * 60\<rparr>)\<rparr>)"
  using assms by (simp add: updateDuration_def update_eq_id_row apply_update_def)

text \<open>
  C3: the record is changed only if the text parses as a non-negative whole number of
  minutes, and is rejected otherwise. The page accepts a negative number: the text \<^verbatim>\<open>-5\<close>
  parses to \<open>- 5\<close>, the minutes field is emptied as after any accepted input, and the
  stored duration goes from \<open>300\<close> to \<open>- 300\<close>.
\<close>

theorem updateDuration_accepts_negative:
  "parseInt ''-5'' = Some (- 5)
   \<and> minutesInput (fst (updateDuration (admin_with default_timer ''-5'' 0) (store_with default_timer))) = []
   \<and> rows (snd (updateDuration (admin_with default_timer ''-5'' 0) (store_with default_timer))) 1
       = Some \<lparr>timer_id = 1, duration = - 300, start_time = None, status = stopped\<rparr>
   \<and> rows (store_with default_timer) 1
       = Some \<lparr>timer_id = 1, duration = 300, start_time = None, status = stopped\<rparr>"
  by code_simp

section \<open>Pausing\<close>

text \<open>
  C4, as stated, takes the elapsed time from the reference clock. \<^verbatim>\<open>pauseTimer\<close> takes it
  from the clock of the admin page, which has no offset. The sample record runs since
  \<open>T = 1700000000000\<close> for a duration of 100. Paused at the reference instant \<open>T + 30000\<close>
  on a page whose clock is 5 seconds ahead (offset \<open>- 5000\<close>), it is stored with the duration
  65, not 70.
\<close>

theorem pauseTimer_reference_counterexample:
  "status sample_running = running \<and> start_time sample_running = Some 1700000000000
   \<and> duration sample_running = 100
   \<and> rows (pauseTimer (Date_now (- 5000) (1700000000000 + 30000))
              (admin_with sample_running [] 0) (store_with sample_running)) 1
       = Some \<lparr>timer_id = 1, duration = 65, start_time = None, status = paused\<rparr>
   \<and> rows (pauseTimer (Date_now (- 5000) (1700000000000 + 30000))
              (admin_with sample_running [] 0) (store_with sample_running)) 1
       \<noteq> Some \<lparr>timer_id = 1, duration = 70, start_time = None, status = paused\<rparr>"
  by code_simp

text \<open>
  C4, amended. On a record whose start time is set exactly when its status is \<open>running\<close>,
  held by the cache and by a reachable store, \<^verbatim>\<open>pauseTimer\<close> changes the store only when
  the status is \<open>running\<close>. Then, with the start time \<open>T\<close> and \<open>now\<close> the reading of the admin
  page's own clock, the row becomes the record with duration
  \<open>max 0 (duration - floor ((now - T) / 1000))\<close>, no start time and status \<open>paused\<close>. A record
  running for a duration of 100 and paused when the page's clock reads 30000 ms after its
  start time gets the duration 70. At the reference instant \<open>ref\<close>, on a page whose clock
  has the offset \<open>off\<close>, the duration stored is
  \<open>max 0 (duration - floor (((ref - off) - T) / 1000))\<close>: that of the reference clock when
  \<open>off = 0\<close>.
\<close>

theorem pauseTimer_effect:
  assumes "online s" and "timer a = Some r" and "rows s (timer_id r) = Some r"
    and "(start_time r \<noteq> None) = (status r = running)"
  shows "(pauseTimer now a s \<noteq> s \<longrightarrow> status r = running)
     \<and> (status r \<noteq> running \<longrightarrow> pauseTimer now a s = s)
     \<and> (status r = running \<longrightarrow>
          (\<exists>T. start_time r = Some T \<and>
             pauseTimer now a s =
               s\<lparr>rows := (rows s)(timer_id r \<mapsto>
                    r\<lparr>duration := max 0 (duration r - \<lfloor>of_int (now - T) / (1000::rat)\<rfloor>),
                      start_time := None, status := paused\<rparr>)\<rparr>))
     \<and> (status r = running \<and> duration r = 100 \<and> start_time r = Some (now - 30000) \<longrightarrow>
          rows (pauseTimer now a s) (timer_id r) =
            Some (r\<lparr>duration := 70, start_time := None, status := paused\<rparr>))
     \<and> (status r = running \<longrightarrow>
          (\<exists>T. start_time r = Some T \<and>
             rows (pauseTimer (Date_now off ref) a s) (timer_id r) =
               Some (r\<lparr>duration := max 0 (duration r - \<lfloor>of_int ((ref - off) - T) / (1000::rat)\<rfloor>),
                      start_time := None, status := paused\<rparr>)))"
proof -
  have stop: "status r \<noteq> running \<Longrightarrow> pauseTimer now a s = s"
    using assms by (simp add: pauseTimer_def)
  have run: "pauseTimer n a s =
      s\<lparr>rows := (rows s)(timer_id r \<mapsto>
        r\<lparr>duration := max 0 (duration r - \<lfloor>of_int (n - T) / (1000::rat)\<rfloor>),
          start_time := None, status := paused\<rparr>)\<rparr>"
    if "start_time r = Some T" for T n
    using assms that
    by (simp add: pauseTimer_def update_eq_id_row apply_update_def Math_floor_def)
  have scen: "rows (pauseTimer now a s) (timer_id r) =
      Some (r\<lparr>duration := 70, start_time := None, status := paused\<rparr>)"
    if "duration r = 100" and "start_time r = Some (now - 30000)"
  proof -
    have "\<lfloor>of_int (now - (now - 30000)) / (1000::rat)\<rfloor> = 30" by simp
    then show ?thesis using run [OF that(2), of now] that(1) by simp
  qed
  have ref: "rows (pauseTimer (Date_now off ref) a s) (timer_id r) =
      Some (r\<lparr>duration := max 0 (duration r - \<lfloor>of_int ((ref - off) - T) / (1000::rat)\<rfloor>),
             start_time := None, status := paused\<rparr>)"
    if "start_time r = Some T" for T
    using run [OF that, of "Date_now off ref"] by (simp add: Date_now_def)
  show ?thesis
    using stop run [of _ now] scen ref assms(4) by (cases "start_time r") auto
qed

text \<open>
  The sample record paused when the page's clock reads \<open>T + 30000\<close>, and paused at the
  reference instant \<open>T + 30000\<close> on a page whose clock is 5 seconds ahead.
\<close>

theorem pauseTimer_effect_witness:
  "online (store_with sample_running)
   \<and> timer (admin_with sample_running [] 0) = Some sample_running
   \<and> rows (store_with sample_running) (timer_id sample_running) = Some sample_running
   \<and> (start_time sample_running \<noteq> None) = (status sample_running = running)
   \<and> status sample_running = running \<and> duration sample_running = 100
   \<and> start_time sample_running = Some (1700000030000 - 30000)
   \<and> rows (pauseTimer 1700000030000 (admin_with sample_running [] 0) (store_with sample_running)) 1
     = Some \<lparr>timer_id = 1, duration = 70, start_time = None, status = paused\<rparr>
   \<and> rows (pauseTimer (Date_now (- 5000) 1700000030000) (admin_with sample_running [] 0)
         (store_with sample_running)) 1
     = Some \<lparr>timer_id = 1, duration = 65, start_time = None, status = paused\<rparr>"
proof -
  have h1: "online (store_with sample_running)" by (simp add: store_with_def)
  have h2: "timer (admin_with sample_running [] 0) = Some sample_running"
    by (simp add: admin_with_def)
  have h3: "rows (store_with sample_running) (timer_id sample_running) = Some sample_running"
    by (simp add: store_with_def)
  have h4: "(start_time sample_running \<noteq> None) = (status sample_running = running)"
    by (simp add: sample_running_def)
  have h5: "status sample_running = running" "duration sample_running = 100"
    "start_time sample_running = Some (1700000030000 - 30000)" "timer_id sample_running = 1"
    by (simp_all add: sample_running_def)
  have h6: "sample_running\<lparr>duration := 70, start_time := None, status := paused\<rparr> =
      \<lparr>timer_id = 1, duration = 70, start_time = None, status = paused\<rparr>"
    "sample_running\<lparr>duration := 65, start_time := None, status := paused\<rparr> =
      \<lparr>timer_id = 1, duration = 65, start_time = None, status = paused\<rparr>"
    by (simp_all add: sample_running_def)
  have fl: "\<lfloor>of_int ((1700000030000 - (- 5000)) - 1700000000000) / (1000::rat)\<rfloor> = 35"
    by simp
  from pauseTimer_effect [OF h1 h2 h3 h4, of 1700000030000 "- 5000" 1700000030000]
  have "rows (pauseTimer 1700000030000 (admin_with sample_running [] 0) (store_with sample_running)) 1
      = Some \<lparr>timer_id = 1, duration = 70, start_time = None, status = paused\<rparr>"
    and "rows (pauseTimer (Date_now (- 5000) 1700000030000) (admin_with sample_running [] 0)
         (store_with sample_running)) 1
      = Some \<lparr>timer_id = 1, duration = 65, start_time = None, status = paused\<rparr>"
    using h5 h6 fl by simp_all
  then show ?thesis using h1 h2 h3 h5 by simp
qed

section \<open>Starting\<close>

text \<open>
  C5, as stated, sets the start time to the reference instant. \<^verbatim>\<open>startTimer\<close> sets it to
  the reading of the admin page's own clock, which has no offset. A stopped record of
  duration 120 is started at the reference instant \<open>T = 1700000000000\<close> on a page whose
  clock is 5 seconds ahead (offset \<open>- 5000\<close>): the start time stored is \<open>T + 5000\<close>, not \<open>T\<close>,
  and a display whose corrected clock reads the reference instant \<open>T + 65000\<close> shows 60,
  not 55.
\<close>

theorem startTimer_reference_counterexample:
  "duration (default_timer\<lparr>duration := 120\<rparr>) = 120
   \<and> status (default_timer\<lparr>duration := 120\<rparr>) = stopped
   \<and> rows (startTimer (Date_now (- 5000) 1700000000000)
              (admin_with (default_timer\<lparr>duration := 120\<rparr>) [] 0)
              (store_with (default_timer\<lparr>duration := 120\<rparr>))) 1
       = Some \<lparr>timer_id = 1, duration = 120, start_time = Some 1700000005000, status = running\<rparr>
   \<and> rows (startTimer (Date_now (- 5000) 1700000000000)
              (admin_with (default_timer\<lparr>duration := 120\<rparr>) [] 0)
              (store_with (default_timer\<lparr>duration := 120\<rparr>))) 1
       \<noteq> Some \<lparr>timer_id = 1, duration = 120, start_time = Some 1700000000000, status = running\<rparr>
   \<and> (1700000064000::int) + offsetMs \<lparr>display_timer = None, offsetMs = 1000, remaining = 0\<rparr>
       = 1700000000000 + 65000
   \<and> computeRemaining 1700000064000
        (display_on_change \<lparr>timer_id = 1, duration = 120, start_time = Some 1700000005000, status = running\<rparr>
           \<lparr>display_timer = None, offsetMs = 1000, remaining = 0\<rparr>) = 60
   \<and> computeRemaining 1700000064000
        (display_on_change \<lparr>timer_id = 1, duration = 120, start_time = Some 1700000005000, status = running\<rparr>
           \<lparr>display_timer = None, offsetMs = 1000, remaining = 0\<rparr>) \<noteq> 55"
  by code_simp

text \<open>
  C5, amended. With the cache holding the stored row of a reachable store, \<^verbatim>\<open>startTimer\<close>
  leaves the store as it is when the duration is not positive, and changes it only when
  the duration is positive; then the row gets the status \<open>running\<close> and the start time \<open>now\<close>,
  the reading of the admin page's own clock. On a record that is running already the
  start time is moved to \<open>now\<close> all the same. A stopped record of duration 120 started when
  the page's clock reads \<open>now\<close> is projected to 55 and to 0 by the admin page when its clock
  reads \<open>now + 65000\<close> and \<open>now + 130000\<close>, and by every display whose corrected clock reads
  so. Started at the reference instant \<open>ref\<close> on a page whose clock has the offset \<open>off\<close>,
  the record gets the start time \<open>ref - off\<close>, and a display whose corrected clock reads
  \<open>ref + 65000\<close> shows \<open>max 0 (120 - floor ((65000 + off) / 1000))\<close>: the start time is the
  reference instant, and the display shows 55, when \<open>off = 0\<close>.
\<close>

theorem startTimer_effect:
  assumes "online s" and "timer a = Some r" and "rows s (timer_id r) = Some r"
  shows "(duration r \<le> 0 \<longrightarrow> startTimer now a s = s)
     \<and> (startTimer now a s \<noteq> s \<longrightarrow> 0 < duration r)
     \<and> (0 < duration r \<longrightarrow>
          startTimer now a s =
            s\<lparr>rows := (rows s)(timer_id r \<mapsto> r\<lparr>start_time := Some now, status := running\<rparr>)\<rparr>)
     \<and> (0 < duration r \<and> status r = running \<longrightarrow>
          rows (startTimer now a s) (timer_id r) = Some (r\<lparr>start_time := Some now\<rparr>))
     \<and> (duration r = 120 \<and> status r = stopped \<longrightarrow>
          (\<forall>r'. rows (startTimer now a s) (timer_id r) = Some r' \<longrightarrow>
             getRemainingTime ((on_change r' a)\<lparr>currentTime := now + 65000\<rparr>) = 55
           \<and> getRemainingTime ((on_change r' a)\<lparr>currentTime := now + 130000\<rparr>) = 0
           \<and> (\<forall>d local. local + offsetMs d = now + 65000 \<longrightarrow>
                  computeRemaining local (display_on_change r' d) = 55)
           \<and> (\<forall>d local. local + offsetMs d = now + 130000 \<longrightarrow>
                  computeRemaining local (display_on_change r' d) = 0)))
     \<and> (0 < duration r \<longrightarrow>
          rows (startTimer (Date_now off ref) a s) (timer_id r) =
            Some (r\<lparr>start_time := Some (ref - off), status := running\<rparr>))
     \<and> (duration r = 120 \<and> status r = stopped \<longrightarrow>
          (\<forall>r'. rows (startTimer (Date_now off ref) a s) (timer_id r) = Some r' \<longrightarrow>
             (\<forall>d local. local + offsetMs d = ref + 65000 \<longrightarrow>
                computeRemaining local (display_on_change r' d) =
                  max 0 (120 - \<lfloor>of_int (65000 + off) / (1000::rat)\<rfloor>))))"
proof -
  have fl: "Math_floor 65 = 65" "Math_floor 130 = 130"
    by (simp_all add: Math_floor_def)
  have own: "(duration r \<le> 0 \<longrightarrow> startTimer now a s = s)
     \<and> (startTimer now a s \<noteq> s \<longrightarrow> 0 < duration r)
     \<and> (0 < duration r \<longrightarrow>
          startTimer now a s =
            s\<lparr>rows := (rows s)(timer_id r \<mapsto> r\<lparr>start_time := Some now, status := running\<rparr>)\<rparr>)
     \<and> (0 < duration r \<and> status r = running \<longrightarrow>
          rows (startTimer now a s) (timer_id r) = Some (r\<lparr>start_time := Some now\<rparr>))
     \<and> (duration r = 120 \<and> status r = stopped \<longrightarrow>
          (\<forall>r'. rows (startTimer now a s) (timer_id r) = Some r' \<longrightarrow>
             getRemainingTime ((on_change r' a)\<lparr>currentTime := now + 65000\<rparr>) = 55
           \<and> getRemainingTime ((on_change r' a)\<lparr>currentTime := now + 130000\<rparr>) = 0
           \<and> (\<forall>d local. local + offsetMs d = now + 65000 \<longrightarrow>
                  computeRemaining local (display_on_change r' d) = 55)
           \<and> (\<forall>d local. local + offsetMs d = now + 130000 \<longrightarrow>
                  computeRemaining local (display_on_change r' d) = 0)))"
    using assms
    by (auto simp add: startTimer_def update_eq_id_row apply_update_def getRemainingTime_def
        computeRemaining_def display_on_change_def on_change_def fl)
  have row: "rows (startTimer (Date_now off ref) a s) (timer_id r) =
      Some (r\<lparr>start_time := Some (ref - off), status := running\<rparr>)"
    if "0 < duration r"
    using assms that
    by (simp add: startTimer_def update_eq_id_row apply_update_def Date_now_def)
  have shown: "computeRemaining local (display_on_change r' d) =
      max 0 (120 - \<lfloor>of_int (65000 + off) / (1000::rat)\<rfloor>)"
    if "duration r = 120" and "rows (startTimer (Date_now off ref) a s) (timer_id r) = Some r'"
      and "local + offsetMs d = ref + 65000" for r' d local
  proof -
    have r': "r' = r\<lparr>start_time := Some (ref - off), status := running\<rparr>"
      using row that(1,2) by simp
    have "local + offsetMs d - (ref - off) = 65000 + off"
      using that(3) by simp
    then have "Math_floor (of_int (local + offsetMs d - (ref - off)) / 1000) =
        \<lfloor>of_int (65000 + off) / (1000::rat)\<rfloor>"
      by (simp only: Math_floor_def)
    then show ?thesis
      using that(1)
      by (simp only: computeRemaining_def display_on_change_def r' Let_def)
        (simp add: that(1))
  qed
  from own row shown show ?thesis by blast
qed

text \<open>
  The scenario of C5 when the page's clock reads \<open>1700000000000\<close>, read 65 seconds later
  by a display whose clock is one second behind; the running sample started again 50
  seconds in; a record of duration 0, which is not started; and the scenario at the
  reference instant \<open>1700000000000\<close> on a page whose clock is 5 seconds ahead.
\<close>

theorem startTimer_effect_witness:
  "online (store_with (default_timer\<lparr>duration := 120\<rparr>))
   \<and> timer (admin_with (default_timer\<lparr>duration := 120\<rparr>) [] 0) = Some (default_timer\<lparr>duration := 120\<rparr>)
   \<and> duration (default_timer\<lparr>duration := 120\<rparr>) = 120
   \<and> status (default_timer\<lparr>duration := 120\<rparr>) = stopped
   \<and> rows (startTimer 1700000000000 (admin_with (default_timer\<lparr>duration := 120\<rparr>) [] 0)
              (store_with (default_timer\<lparr>duration := 120\<rparr>))) 1 =
        Some \<lparr>timer_id = 1, duration = 120, start_time = Some 1700000000000, status = running\<rparr>
   \<and> computeRemaining 1700000064000
        (display_on_change \<lparr>timer_id = 1, duration = 120, start_time = Some 1700000000000, status = running\<rparr>
           \<lparr>display_timer = None, offsetMs = 1000, remaining = 0\<rparr>) = 55
   \<and> 0 < duration sample_running \<and> status sample_running = running
   \<and> rows (startTimer 1700000050000 (admin_with sample_running [] 0) (store_with sample_running))
         (timer_id sample_running) = Some (sample_running\<lparr>start_time := Some 1700000050000\<rparr>)
   \<and> duration (default_timer\<lparr>duration := 0\<rparr>) \<le> 0
   \<and> startTimer 1700000000000 (admin_with (default_timer\<lparr>duration := 0\<rparr>) [] 0)
         (store_with (default_timer\<lparr>duration := 0\<rparr>)) = store_with (default_timer\<lparr>duration := 0\<rparr>)
   \<and> rows (startTimer (Date_now (- 5000) 1700000000000)
              (admin_with (default_timer\<lparr>duration := 120\<rparr>) [] 0)
              (store_with (default_timer\<lparr>duration := 120\<rparr>))) 1
       = Some \<lparr>timer_id = 1, duration = 120, start_time = Some 1700000005000, status = running\<rparr>"
proof -
  let ?r = "default_timer\<lparr>duration := 120\<rparr>"
  let ?z = "default_timer\<lparr>duration := 0\<rparr>"
  have g1: "online (store_with sample_running)" "online (store_with ?z)"
    by (simp_all add: store_with_def)
  have g2: "timer (admin_with sample_running [] 0) = Some sample_running"
    "timer (admin_with ?z [] 0) = Some ?z"
    by (simp_all add: admin_with_def)
  have g3: "rows (store_with sample_running) (timer_id sample_running) = Some sample_running"
    "rows (store_with ?z) (timer_id ?z) = Some ?z"
    by (simp_all add: store_with_def)
  have g4: "0 < duration sample_running" "status sample_running = running" "duration ?z \<le> 0"
    by (simp_all add: sample_running_def)
  note again = startTimer_effect [OF g1(1) g2(1) g3(1), of 1700000050000]
  note never = startTimer_effect [OF g1(2) g2(2) g3(2), of 1700000000000]
  let ?a = "admin_with ?r [] 0"
  let ?s = "store_with ?r"
  let ?d = "\<lparr>display_timer = None, offsetMs = 1000, remaining = 0\<rparr>"
  have h1: "online ?s" by (simp add: store_with_def)
  have h2: "timer ?a = Some ?r" by (simp add: admin_with_def)
  have h3: "rows ?s (timer_id ?r) = Some ?r" by (simp add: store_with_def)
  have h4: "duration ?r = 120" "status ?r = stopped" "timer_id ?r = 1"
    by (simp_all add: default_timer_def)
  have h5: "?r\<lparr>start_time := Some 1700000000000, status := running\<rparr> =
      \<lparr>timer_id = 1, duration = 120, start_time = Some 1700000000000, status = running\<rparr>"
    by (simp add: default_timer_def)
  have h6: "(1700000064000::int) + offsetMs ?d = 1700000000000 + 65000" by simp
  from startTimer_effect [OF h1 h2 h3, of 1700000000000] h4 h5 h6
  have first: "rows (startTimer 1700000000000 ?a ?s) 1 =
        Some \<lparr>timer_id = 1, duration = 120, start_time = Some 1700000000000, status = running\<rparr>"
    and shown: "computeRemaining 1700000064000
        (display_on_change \<lparr>timer_id = 1, duration = 120, start_time = Some 1700000000000, status = running\<rparr> ?d) = 55"
    by simp_all
  from again g4 have rebased: "rows (startTimer 1700000050000 (admin_with sample_running [] 0)
      (store_with sample_running)) (timer_id sample_running) =
      Some (sample_running\<lparr>start_time := Some 1700000050000\<rparr>)"
    by blast
  from never g4 have idle: "startTimer 1700000000000 (admin_with ?z [] 0) (store_with ?z) = store_with ?z"
    by blast
  have h7: "?r\<lparr>start_time := Some (1700000000000 - (- 5000)), status := running\<rparr> =
      \<lparr>timer_id = 1, duration = 120, start_time = Some 1700000005000, status = running\<rparr>"
    by (simp add: default_timer_def)
  from startTimer_effect [OF h1 h2 h3, of 0 "- 5000" 1700000000000] h4 h7
  have ahead: "rows (startTimer (Date_now (- 5000) 1700000000000) ?a ?s) 1 =
      Some \<lparr>timer_id = 1, duration = 120, start_time = Some 1700000005000, status = running\<rparr>"
    by simp
  show ?thesis
    using h1 h2 h4 g4 first shown rebased idle ahead by simp
qed

section \<open>Estimating the clock offset\<close>

text \<open>
  C6: for all local readings \<open>t0\<close>, \<open>t1\<close> and every server reading, \<^verbatim>\<open>computeOffset\<close> sets
  the offset to the server reading minus \<open>round ((t0 + t1) / 2)\<close>, and changes nothing else
  of the page; for \<open>t0 = 1000\<close>, \<open>t1 = 1200\<close> and the server reading 2150 the offset is 1050.
\<close>

theorem computeOffset_estimate:
  "offsetMs (computeOffset t0 t1 serverMs d) = serverMs - round ((of_int t0 + of_int t1) / (2::real))
   \<and> offsetMs (computeOffset 1000 1200 2150 d) = 1050
   \<and> display_timer (computeOffset t0 t1 serverMs d) = display_timer d
   \<and> remaining (computeOffset t0 t1 serverMs d) = remaining d"
proof -
  have mid: "round ((of_int x + of_int y) / (2::real)) = (x + y + 1) div 2" for x y :: int
  proof -
    have "(of_int x + of_int y) / (2::real) + 1 / 2 = of_int (x + y + 1) / of_int 2"
      by (simp add: add_divide_distrib)
    then show ?thesis
      unfolding round_def by (simp only: floor_divide_of_int_eq)
  qed
  have gen: "offsetMs (computeOffset x y z d) = z - (x + y + 1) div 2" for x y z
    using Math_round_half [of "x + y"] by (simp add: computeOffset_def)
  have "offsetMs (computeOffset 1000 1200 2150 d) = 1050"
    using gen [where x = 1000 and y = 1200 and z = 2150] by simp
  moreover have "display_timer (computeOffset t0 t1 serverMs d) = display_timer d"
    and "remaining (computeOffset t0 t1 serverMs d) = remaining d"
    by (simp_all add: computeOffset_def)
  ultimately show ?thesis
    by (simp add: mid gen)
qed

section \<open>Pausing and resuming at once\<close>



section \<open>Resetting\<close>

text \<open>
  C8: whatever the status of the stored row \<open>r\<close>, \<^verbatim>\<open>resetTimer\<close> on a reachable store sets
  its status to \<open>stopped\<close> and its start time to none, and leaves its duration and its id,
  every other row and the rest of the store as they are.
\<close>

theorem resetTimer_frame:
  assumes "online s" and "timer a = Some t" and "rows s (timer_id t) = Some r"
  shows "resetTimer a s = s\<lparr>rows := (rows s)(timer_id t \<mapsto> r\<lparr>start_time := None, status := stopped\<rparr>)\<rparr>
     \<and> (\<exists>r'. rows (resetTimer a s) (timer_id t) = Some r'
            \<and> status r' = stopped \<and> start_time r' = None
            \<and> duration r' = duration r \<and> timer_id r' = timer_id r)
     \<and> (\<forall>k. k \<noteq> timer_id t \<longrightarrow> rows (resetTimer a s) k = rows s k)"
  using assms by (simp add: resetTimer_def update_eq_id_row apply_update_def)

text \<open>Resetting the running sample.\<close>

theorem resetTimer_frame_witness:
  "online (store_with sample_running) \<and> timer (admin_with sample_running [] 0) = Some sample_running
   \<and> rows (store_with sample_running) (timer_id sample_running) = Some sample_running
   \<and> (\<exists>r'. rows (resetTimer (admin_with sample_running [] 0) (store_with sample_running))
               (timer_id sample_running) = Some r'
          \<and> status r' = stopped \<and> start_time r' = None
          \<and> duration r' = duration sample_running \<and> timer_id r' = timer_id sample_running)"
proof -
  have h1: "online (store_with sample_running)" by (simp add: store_with_def)
  have h2: "timer (admin_with sample_running [] 0) = Some sample_running"
    by (simp add: admin_with_def)
  have h3: "rows (store_with sample_running) (timer_id sample_running) = Some sample_running"
    by (simp add: store_with_def)
  from resetTimer_frame [OF h1 h2 h3]
  show ?thesis using h1 h2 h3 by blast
qed

section \<open>A missing record\<close>

lemma fetchTimer_found:
  "online s \<Longrightarrow> rows s 1 = Some r \<Longrightarrow> fetchTimer a s = (a\<lparr>timer := Some r, loading := False\<rparr>, s)"
  by (simp add: fetchTimer_def select_single_found)

lemma fetchTimer_missing:
  assumes "online s" and "rows s 1 = None"
  shows "fetchTimer a s =
    (a\<lparr>timer := Some default_timer, loading := False\<rparr>,
     s\<lparr>rows := (rows s)(1 \<mapsto> default_timer), inserted := inserted s @ [default_timer]\<rparr>)"
proof -
  have "timer_id default_timer = 1" by (simp add: default_timer_def)
  then have "insert_single default_timer s =
      (Data default_timer,
       s\<lparr>rows := (rows s)(1 \<mapsto> default_timer), inserted := inserted s @ [default_timer]\<rparr>)"
    using assms by (simp add: insert_single_def)
  then show ?thesis
    using assms by (simp add: fetchTimer_def select_single_missing)
qed

lemma refetch_found:
  assumes "online s" and "rows s 1 = Some r" and "timer a = Some r"
  shows "snd (refetch n a s) = s \<and> timer (fst (refetch n a s)) = Some r
     \<and> error (fst (refetch n a s)) = error a"
  using assms(3)
proof (induction n arbitrary: a)
  case 0
  then show ?case by simp
next
  case (Suc n)
  have "timer (a\<lparr>timer := Some r, loading := False\<rparr>) = Some r" by simp
  from Suc.IH [OF this] show ?case
    by (simp add: fetchTimer_found [OF assms(1,2)])
qed

text \<open>
  C9: when a reachable store has no row 1, \<^verbatim>\<open>fetchTimer\<close> of the admin page inserts the
  default record (id 1, 300 seconds, stopped, no start time), caches it and sets no error.
  However many times the fetch is run, the store is the one left by the first run: the
  default record was inserted once. \<^verbatim>\<open>loadTimer\<close> of the display page, on the store with
  no row 1, changes neither the store nor the page.
\<close>

theorem fetchTimer_creates_default_once:
  assumes "online s" and "rows s 1 = None"
  shows "fetchTimer a s =
      (a\<lparr>timer := Some default_timer, loading := False\<rparr>,
       s\<lparr>rows := (rows s)(1 \<mapsto> default_timer), inserted := inserted s @ [default_timer]\<rparr>)
     \<and> default_timer = \<lparr>timer_id = 1, duration = 300, start_time = None, status = stopped\<rparr>
     \<and> snd (refetch (Suc n) a s) = snd (fetchTimer a s)
     \<and> inserted (snd (refetch (Suc n) a s)) = inserted s @ [default_timer]
     \<and> timer (fst (refetch (Suc n) a s)) = Some default_timer
     \<and> error (fst (refetch (Suc n) a s)) = error a
     \<and> loadTimer d s = (d, s)"
proof -
  let ?a' = "a\<lparr>timer := Some default_timer, loading := False\<rparr>"
  let ?s' = "s\<lparr>rows := (rows s)(1 \<mapsto> default_timer), inserted := inserted s @ [default_timer]\<rparr>"
  have first: "fetchTimer a s = (?a', ?s')"
    by (rule fetchTimer_missing [OF assms])
  have "online ?s'" and "rows ?s' 1 = Some default_timer" and "timer ?a' = Some default_timer"
    using assms(1) by simp_all
  from refetch_found [OF this]
  have rest: "snd (refetch n ?a' ?s') = ?s'" "timer (fst (refetch n ?a' ?s')) = Some default_timer"
    "error (fst (refetch n ?a' ?s')) = error a"
    by simp_all
  have unfold: "refetch (Suc n) a s = refetch n ?a' ?s'"
    by (simp only: refetch.simps first prod.case)
  have "loadTimer d s = (d, s)"
    using assms by (simp add: loadTimer_def select_single_missing)
  then show ?thesis
    by (simp only: unfold rest first) (simp add: default_timer_def)
qed

text \<open>Three fetches of a freshly mounted admin page, and a display, on the empty store.\<close>

theorem fetchTimer_creates_default_once_witness:
  "online \<lparr>rows = Map.empty, inserted = [], online = True\<rparr>
   \<and> rows \<lparr>rows = Map.empty, inserted = [], online = True\<rparr> 1 = None
   \<and> inserted (snd (refetch (Suc 2)
         \<lparr>timer = None, minutesInput = [], currentTime = 0, loading = True, error = None\<rparr>
         \<lparr>rows = Map.empty, inserted = [], online = True\<rparr>)) = [default_timer]
   \<and> timer (fst (refetch (Suc 2)
         \<lparr>timer = None, minutesInput = [], currentTime = 0, loading = True, error = None\<rparr>
         \<lparr>rows = Map.empty, inserted = [], online = True\<rparr>)) = Some default_timer
   \<and> loadTimer \<lparr>display_timer = None, offsetMs = 0, remaining = 0\<rparr>
         \<lparr>rows = Map.empty, inserted = [], online = True\<rparr>
       = (\<lparr>display_timer = None, offsetMs = 0, remaining = 0\<rparr>,
          \<lparr>rows = Map.empty, inserted = [], online = True\<rparr>)"
proof -
  let ?s = "\<lparr>rows = Map.empty, inserted = [], online = True\<rparr>"
  have h1: "online ?s" by simp
  have h2: "rows ?s 1 = None" by simp
  from fetchTimer_creates_default_once [OF h1 h2, of _ 2]
  show ?thesis by simp
qed

section \<open>What starting leaves alone\<close>

text \<open>
  C10: when the cached record \<open>t\<close> has a positive duration, \<^verbatim>\<open>startTimer\<close> on a reachable
  store writes the status and the start time of the stored row \<open>r\<close> only: the row keeps
  the duration and the id it had in the store, whatever the cache holds, and every other
  row and the rest of the store are as they were. When the stored duration is positive,
  the remaining time at the instant of starting is that duration.
\<close>

theorem startTimer_frame:
  assumes "online s" and "timer a = Some t" and "rows s (timer_id t) = Some r"
    and "0 < duration t"
  shows "startTimer now a s =
      s\<lparr>rows := (rows s)(timer_id t \<mapsto> r\<lparr>start_time := Some now, status := running\<rparr>)\<rparr>
     \<and> (\<exists>r'. rows (startTimer now a s) (timer_id t) = Some r'
            \<and> duration r' = duration r \<and> timer_id r' = timer_id r
            \<and> start_time r' = Some now \<and> status r' = running
            \<and> (0 < duration r \<longrightarrow>
                 getRemainingTime ((on_change r' a)\<lparr>currentTime := now\<rparr>) = duration r))
     \<and> (\<forall>k. k \<noteq> timer_id t \<longrightarrow> rows (startTimer now a s) k = rows s k)
     \<and> inserted (startTimer now a s) = inserted s
     \<and> online (startTimer now a s) = online s"
  using assms
  by (simp add: startTimer_def update_eq_id_row apply_update_def getRemainingTime_def
      on_change_def Math_floor_def)

text \<open>
  Starting from a cache that still holds the default record of 300 seconds, when the
  stored row has the duration 120: the row keeps 120.
\<close>

theorem startTimer_frame_witness:
  "online (store_with (default_timer\<lparr>duration := 120\<rparr>))
   \<and> timer (admin_with default_timer [] 0) = Some default_timer
   \<and> rows (store_with (default_timer\<lparr>duration := 120\<rparr>)) (timer_id default_timer)
       = Some (default_timer\<lparr>duration := 120\<rparr>)
   \<and> 0 < duration default_timer
   \<and> rows (startTimer 1700000000000 (admin_with default_timer [] 0)
         (store_with (default_timer\<lparr>duration := 120\<rparr>))) 1
       = Some \<lparr>timer_id = 1, duration = 120, start_time = Some 1700000000000, status = running\<rparr>"
proof -
  let ?r = "default_timer\<lparr>duration := 120\<rparr>"
  have h1: "online (store_with ?r)" by (simp add: store_with_def)
  have h2: "timer (admin_with default_timer [] 0) = Some default_timer" by (simp add: admin_with_def)
  have h3: "rows (store_with ?r) (timer_id default_timer) = Some ?r"
    by (simp add: store_with_def default_timer_def)
  have h4: "0 < duration default_timer" by (simp add: default_timer_def)
  have h5: "timer_id default_timer = 1" by (simp add: default_timer_def)
  have h6: "?r\<lparr>start_time := Some 1700000000000, status := running\<rparr> =
      \<lparr>timer_id = 1, duration = 120, start_time = Some 1700000000000, status = running\<rparr>"
    by (simp add: default_timer_def)
  from startTimer_frame [OF h1 h2 h3 h4, of 1700000000000]
  have "rows (startTimer 1700000000000 (admin_with default_timer [] 0) (store_with ?r)) 1 =
      Some \<lparr>timer_id = 1, duration = 120, start_time = Some 1700000000000, status = running\<rparr>"
    using h5 h6 by simp
  then show ?thesis using h1 h2 h3 h4 by simp
qed

end
